theory Spec2Isabelle
  imports Complex_Main "HOL-Library.AList"
begin

section \<open>Symbols, rows and external collaborators\<close>

text \<open>
  The solver of \<^verbatim>\<open>solver.ts\<close> computes with JavaScript numbers. They are modelled as
  \<^typ>\<open>real\<close>: arithmetic is exact, and the two places where the source would leave the
  finite numbers (a division by a missing or zero coefficient in \<^verbatim>\<open>Row.solveFor\<close>) are
  explicit failure branches. An ES6 \<^verbatim>\<open>Map\<close> iterates in insertion order, \<^verbatim>\<open>set\<close> on a
  present key keeps its position and \<^verbatim>\<open>set\<close> on an absent key appends: this is an association
  list with \<^const>\<open>AList.update\<close> and \<^const>\<open>AList.delete\<close>.
\<close>

datatype SymbolType = Invalid | External | Slack | Error | Dummy

datatype Symbol = Symbol (sym_type: SymbolType) (sym_id: int)

definition INVALID_SYMBOL :: Symbol where
  "INVALID_SYMBOL = Symbol Invalid (- 1)"

definition nearZero :: "real \<Rightarrow> bool" where
  "nearZero v = (let eps = 1 / 10 ^ 8 in if v < 0 then - v < eps else v < eps)"

text \<open>\<^verbatim>\<open>Number.MAX_VALUE\<close>, the largest finite double: \<open>2^1024 - 2^971\<close>.\<close>

definition MAX_VALUE :: real where
  "MAX_VALUE = 2 ^ 1024 - 2 ^ 971"

record Row =
  cellMap :: "(Symbol \<times> real) list"
  row_constant :: real

record Tag =
  marker :: Symbol
  other :: Symbol

text \<open>
  A \<^verbatim>\<open>Variable\<close> is used by the solver only as a map key (object identity) and through
  \<^verbatim>\<open>setValue\<close>. It is modelled by its identity; the value slots of all variables form a
  store \<open>Variable \<Rightarrow> real\<close> that \<^verbatim>\<open>updateVariables\<close> writes.
\<close>

type_synonym Variable = nat

type_synonym VarStore = "Variable \<Rightarrow> real"

definition setValue :: "Variable \<Rightarrow> real \<Rightarrow> VarStore \<Rightarrow> VarStore" where
  "setValue variable v store = store(variable := v)"

text \<open>
  Modelled from the spec: \<^verbatim>\<open>expression.ts\<close>, \<^verbatim>\<open>constraint.ts\<close> and \<^verbatim>\<open>strength.ts\<close> are
  referenced by \<^verbatim>\<open>solver.ts\<close> but are not among the sources. An expression exposes a scalar
  constant and an ordered sequence of terms, one per variable; a constraint is an immutable
  triple of expression, operator and strength, used as a map key by identity (\<open>cn_id\<close>).
  The sentinel \<^verbatim>\<open>Strength.required\<close> is a parameter \<open>req\<close> of the operations that read it,
  and \<^verbatim>\<open>Strength.clip\<close> maps any real into \<open>[0, req]\<close>.
\<close>

record Expression =
  terms :: "(Variable \<times> real) list"
  expr_constant :: real

datatype Operator = Le | Ge | Eq

record Constraint =
  cn_id :: nat
  expression :: Expression
  op :: Operator
  strength :: real

definition clip :: "real \<Rightarrow> real \<Rightarrow> real" where
  "clip req v = max 0 (min req v)"

record EditInfo =
  info_tag :: Tag
  info_constraint :: Constraint
  info_constant :: real

subsection \<open>Row primitives\<close>

definition isConstant :: "Row \<Rightarrow> bool" where
  "isConstant row = (cellMap row = [])"

definition allDummies :: "Row \<Rightarrow> bool" where
  "allDummies row =
     fold (\<lambda>(symbol, coefficient) found. if sym_type symbol \<noteq> Dummy then False else found)
       (cellMap row) True"

definition copy :: "Row \<Rightarrow> Row" where
  "copy row = \<lparr>cellMap = cellMap row, row_constant = row_constant row\<rparr>"

definition add :: "Row \<Rightarrow> real \<Rightarrow> Row" where
  "add row v = row\<lparr>row_constant := row_constant row + v\<rparr>"

definition coefficientFor :: "Row \<Rightarrow> Symbol \<Rightarrow> real" where
  "coefficientFor row symbol = (case map_of (cellMap row) symbol of None \<Rightarrow> 0 | Some c \<Rightarrow> c)"

definition insertSymbol :: "Row \<Rightarrow> Symbol \<Rightarrow> real \<Rightarrow> Row" where
  "insertSymbol row symbol c =
     (let coefficient = c + (case map_of (cellMap row) symbol of None \<Rightarrow> 0 | Some x \<Rightarrow> x);
          cells = AList.update symbol coefficient (cellMap row)
      in row\<lparr>cellMap := (if nearZero coefficient then AList.delete symbol cells else cells)\<rparr>)"

definition insertRow :: "Row \<Rightarrow> Row \<Rightarrow> real \<Rightarrow> Row" where
  "insertRow row other_row coefficient =
     fold (\<lambda>(otherSymbol, otherCoeff) r. insertSymbol r otherSymbol (otherCoeff * coefficient))
       (cellMap other_row)
       (row\<lparr>row_constant := row_constant row + row_constant other_row * coefficient\<rparr>)"

definition removeSymbol :: "Row \<Rightarrow> Symbol \<Rightarrow> Row" where
  "removeSymbol row symbol = row\<lparr>cellMap := AList.delete symbol (cellMap row)\<rparr>"

definition reverseSign :: "Row \<Rightarrow> Row" where
  "reverseSign row =
     \<lparr>cellMap = map (\<lambda>(symbol, coefficient). (symbol, - coefficient)) (cellMap row),
      row_constant = - row_constant row\<rparr>"

text \<open>
  \<^verbatim>\<open>solveFor\<close> divides by the coefficient of the target symbol. The source requires the
  symbol to be present; on an absent symbol JavaScript computes \<^verbatim>\<open>-1.0 / undefined\<close> (NaN) and
  on a zero coefficient an infinity. Both leave the real numbers, so the model returns
  \<^const>\<open>None\<close> there.
\<close>

definition solveFor :: "Row \<Rightarrow> Symbol \<Rightarrow> Row option" where
  "solveFor row symbol =
     (case map_of (cellMap row) symbol of
        None \<Rightarrow> None
      | Some a \<Rightarrow>
          if a = 0 then None
          else (let coeff = - 1 / a
                in Some \<lparr>cellMap = map (\<lambda>(sym, c). (sym, c * coeff))
                                     (AList.delete symbol (cellMap row)),
                         row_constant = row_constant row * coeff\<rparr>))"

definition solveForEx :: "Row \<Rightarrow> Symbol \<Rightarrow> Symbol \<Rightarrow> Row option" where
  "solveForEx row lhs rhs = solveFor (insertSymbol row lhs (- 1)) rhs"

definition substitute :: "Row \<Rightarrow> Symbol \<Rightarrow> Row \<Rightarrow> Row" where
  "substitute row symbol r =
     (case map_of (cellMap row) symbol of
        None \<Rightarrow> row
      | Some existing \<Rightarrow> insertRow (row\<lparr>cellMap := AList.delete symbol (cellMap row)\<rparr>) r existing)"

section \<open>The tableau state\<close>

text \<open>
  The conditions a public call can raise. The first six are the named conditions of the
  interface; \<open>ObjectiveUnbounded\<close>, \<open>DualOptimizeFailed\<close> and \<open>NoLeavingRow\<close> are the three
  internal errors thrown by \<^verbatim>\<open>_optimize\<close>, \<^verbatim>\<open>_dualOptimize\<close> and \<^verbatim>\<open>removeConstraint\<close>.
  \<open>TypeError\<close> stands for a method call on \<^verbatim>\<open>undefined\<close> or \<^verbatim>\<open>null\<close>, and \<open>NonFinite\<close> for
  a \<^verbatim>\<open>solveFor\<close> that leaves the real numbers.
\<close>

datatype SolverError =
    DuplicateConstraint | UnknownConstraint | UnsatisfiableConstraint
  | DuplicateEditVariable | UnknownEditVariable | BadRequiredStrength
  | ObjectiveUnbounded | DualOptimizeFailed | NoLeavingRow
  | TypeError | NonFinite

record Solver =
  cnMap :: "(Constraint \<times> Tag) list"
  rowMap :: "(Symbol \<times> Row) list"
  varMap :: "(Variable \<times> Symbol) list"
  editMap :: "(Variable \<times> EditInfo) list"
  infeasibleRows :: "Symbol list"
  objective :: Row
  artificial :: "Row option"
  idTick :: int

definition newSolver :: Solver where
  "newSolver =
     \<lparr>cnMap = [], rowMap = [], varMap = [], editMap = [], infeasibleRows = [],
      objective = \<lparr>cellMap = [], row_constant = 0\<rparr>, artificial = None, idTick = 0\<rparr>"

text \<open>
  A call that throws leaves the solver object as it was at the throw, so a failure carries
  that state. The two loops of the source have no bound; they take fuel, and \<^const>\<open>None\<close>
  means that the fuel ran out before the loop returned.
\<close>

type_synonym 'a Outcome = "((SolverError \<times> Solver) + 'a) option"

subsection \<open>Private helpers\<close>

definition makeSymbol :: "SymbolType \<Rightarrow> Solver \<Rightarrow> Symbol \<times> Solver" where
  "makeSymbol t s = (Symbol t (idTick s), s\<lparr>idTick := idTick s + 1\<rparr>)"

definition getVarSymbol :: "Variable \<Rightarrow> Solver \<Rightarrow> Symbol \<times> Solver" where
  "getVarSymbol variable s =
     (case map_of (varMap s) variable of
        Some symbol \<Rightarrow> (symbol, s)
      | None \<Rightarrow>
          (let (symbol, s1) = makeSymbol External s
           in (symbol, s1\<lparr>varMap := AList.update variable symbol (varMap s1)\<rparr>)))"

definition createRow_term :: "Variable \<times> real \<Rightarrow> Row \<times> Solver \<Rightarrow> Row \<times> Solver" where
  "createRow_term = (\<lambda>(variable, coefficient) (row, s).
     if \<not> nearZero coefficient then
       (let (symbol, s1) = getVarSymbol variable s
        in case map_of (rowMap s1) symbol of
             Some basicRow \<Rightarrow> (insertRow row basicRow coefficient, s1)
           | None \<Rightarrow> (insertSymbol row symbol coefficient, s1))
     else (row, s))"

definition createRow :: "real \<Rightarrow> Constraint \<Rightarrow> Solver \<Rightarrow> Row \<times> Tag \<times> Solver" where
  "createRow req cn s =
     (let expr = expression cn;
          (row1, s1) = fold createRow_term (terms expr)
                         (\<lparr>cellMap = [], row_constant = expr_constant expr\<rparr>, s);
          (row2, tag, s2) =
            (case op cn of
               Eq \<Rightarrow>
                 if strength cn < req then
                   (let (errplus, sa) = makeSymbol Error s1;
                        (errminus, sb) = makeSymbol Error sa;
                        ra = insertSymbol row1 errplus (- 1);
                        rb = insertSymbol ra errminus 1;
                        oa = insertSymbol (objective sb) errplus (strength cn);
                        ob = insertSymbol oa errminus (strength cn)
                    in (rb, \<lparr>marker = errplus, other = errminus\<rparr>, sb\<lparr>objective := ob\<rparr>))
                 else
                   (let (dummy, sa) = makeSymbol Dummy s1
                    in (insertSymbol row1 dummy 1,
                        \<lparr>marker = dummy, other = INVALID_SYMBOL\<rparr>, sa))
             | _ \<Rightarrow>
                 (let coeff = (if op cn = Le then 1 else - 1);
                      (slack, sa) = makeSymbol Slack s1;
                      ra = insertSymbol row1 slack coeff
                  in if strength cn < req then
                       (let (error, sb) = makeSymbol Error sa;
                            rb = insertSymbol ra error (- coeff);
                            ob = insertSymbol (objective sb) error (strength cn)
                        in (rb, \<lparr>marker = slack, other = error\<rparr>, sb\<lparr>objective := ob\<rparr>))
                     else (ra, \<lparr>marker = slack, other = INVALID_SYMBOL\<rparr>, sa)))
      in (if row_constant row2 < 0 then reverseSign row2 else row2, tag, s2))"

definition chooseSubject :: "Row \<Rightarrow> Tag \<Rightarrow> Symbol" where
  "chooseSubject row tag =
     (let found = fold (\<lambda>(symbol, coefficient) found.
                     if found = INVALID_SYMBOL \<and> sym_type symbol = External then symbol else found)
                   (cellMap row) INVALID_SYMBOL
      in if found \<noteq> INVALID_SYMBOL then found
         else if (sym_type (marker tag) = Slack \<or> sym_type (marker tag) = Error)
                 \<and> coefficientFor row (marker tag) < 0 then marker tag
         else if (sym_type (other tag) = Slack \<or> sym_type (other tag) = Error)
                 \<and> coefficientFor row (other tag) < 0 then other tag
         else INVALID_SYMBOL)"

definition anyPivotableSymbol :: "Row \<Rightarrow> Symbol" where
  "anyPivotableSymbol row =
     fold (\<lambda>(symbol, coefficient) found.
             if found = INVALID_SYMBOL \<and> (sym_type symbol = Slack \<or> sym_type symbol = Error)
             then symbol else found)
       (cellMap row) INVALID_SYMBOL"

text \<open>
  \<^verbatim>\<open>_substitute\<close>: every basis row is rewritten in place, and the key of each row that is
  negative afterwards and not External is pushed on the worklist, in iteration order.
\<close>

definition solver_substitute :: "Symbol \<Rightarrow> Row \<Rightarrow> Solver \<Rightarrow> Solver" where
  "solver_substitute symbol row s =
     (let rows = map (\<lambda>(enumSymbol, enumRow). (enumSymbol, substitute enumRow symbol row))
                   (rowMap s);
          pushed = map fst (filter (\<lambda>(enumSymbol, enumRow).
                     row_constant enumRow < 0 \<and> sym_type enumSymbol \<noteq> External) rows)
      in s\<lparr>rowMap := rows,
           infeasibleRows := infeasibleRows s @ pushed,
           objective := substitute (objective s) symbol row,
           artificial := map_option (\<lambda>a. substitute a symbol row) (artificial s)\<rparr>)"

definition getEnteringSymbol :: "Row \<Rightarrow> Symbol" where
  "getEnteringSymbol obj =
     fold (\<lambda>(symbol, coefficient) found.
             if found = INVALID_SYMBOL \<and> coefficient < 0 \<and> sym_type symbol \<noteq> Dummy
             then symbol else found)
       (cellMap obj) INVALID_SYMBOL"

definition getDualEnteringSymbol :: "Row \<Rightarrow> Solver \<Rightarrow> Symbol" where
  "getDualEnteringSymbol row s =
     snd (fold (\<lambda>(symbol, c) (ratio, entering).
                  if c > 0 \<and> sym_type symbol \<noteq> Dummy then
                    (let coeff = coefficientFor (objective s) symbol; r = coeff / c
                     in if r < ratio then (r, symbol) else (ratio, entering))
                  else (ratio, entering))
            (cellMap row) (MAX_VALUE, INVALID_SYMBOL))"

definition getLeavingSymbol :: "Symbol \<Rightarrow> Solver \<Rightarrow> Symbol" where
  "getLeavingSymbol entering s =
     snd (fold (\<lambda>(symbol, row) (ratio, found).
                  if sym_type symbol \<noteq> External then
                    (let temp = coefficientFor row entering
                     in if temp < 0 then
                          (let temp_ratio = - row_constant row / temp
                           in if temp_ratio < ratio then (temp_ratio, symbol) else (ratio, found))
                        else (ratio, found))
                  else (ratio, found))
            (rowMap s) (MAX_VALUE, INVALID_SYMBOL))"

record MarkerScan =
  r1 :: real
  r2 :: real
  first :: Symbol
  second :: Symbol
  third :: Symbol

definition markerScan_step :: "Symbol \<Rightarrow> Symbol \<times> Row \<Rightarrow> MarkerScan \<Rightarrow> MarkerScan" where
  "markerScan_step mk = (\<lambda>(symbol, row) st.
     (let c = coefficientFor row mk
      in if c \<noteq> 0 then
           (if sym_type symbol = External then st\<lparr>third := symbol\<rparr>
            else if c < 0 then
              (let r = - row_constant row / c
               in if r < r1 st then st\<lparr>r1 := r, first := symbol\<rparr> else st)
            else
              (let r = row_constant row / c
               in if r < r2 st then st\<lparr>r2 := r, second := symbol\<rparr> else st))
         else st))"

definition getMarkerLeavingSymbol :: "Symbol \<Rightarrow> Solver \<Rightarrow> Symbol" where
  "getMarkerLeavingSymbol mk s =
     (let scan = fold (markerScan_step mk) (rowMap s)
                  \<lparr>r1 = MAX_VALUE, r2 = MAX_VALUE, first = INVALID_SYMBOL,
                   second = INVALID_SYMBOL, third = INVALID_SYMBOL\<rparr>
      in if first scan \<noteq> INVALID_SYMBOL then first scan
         else if second scan \<noteq> INVALID_SYMBOL then second scan
         else third scan)"

definition removeMarkerEffects :: "Symbol \<Rightarrow> real \<Rightarrow> Solver \<Rightarrow> Solver" where
  "removeMarkerEffects mk strength_v s =
     (case map_of (rowMap s) mk of
        Some row \<Rightarrow> s\<lparr>objective := insertRow (objective s) row (- strength_v)\<rparr>
      | None \<Rightarrow> s\<lparr>objective := insertSymbol (objective s) mk (- strength_v)\<rparr>)"

definition removeConstraintEffects :: "Constraint \<Rightarrow> Tag \<Rightarrow> Solver \<Rightarrow> Solver" where
  "removeConstraintEffects cn tag s =
     (let s1 = (if sym_type (marker tag) = Error
                then removeMarkerEffects (marker tag) (strength cn) s else s)
      in if sym_type (other tag) = Error
         then removeMarkerEffects (other tag) (strength cn) s1 else s1)"

subsection \<open>Pivoting and the two optimisation loops\<close>

text \<open>
  The pivot sequence shared by \<^verbatim>\<open>_optimize\<close> and \<^verbatim>\<open>_dualOptimize\<close>: detach the leaving
  row, solve it for the entering symbol, substitute the entering symbol through the tableau
  and reinstall the row under the entering key.
\<close>

definition pivot :: "Symbol \<Rightarrow> Symbol \<Rightarrow> Row \<Rightarrow> Solver \<Rightarrow> (SolverError \<times> Solver) + Solver" where
  "pivot leaving entering row s =
     (let s1 = s\<lparr>rowMap := AList.delete leaving (rowMap s)\<rparr>
      in case solveForEx row leaving entering of
           None \<Rightarrow> Inl (NonFinite, s1)
         | Some row' \<Rightarrow>
             (let s2 = solver_substitute entering row' s1
              in Inr (s2\<lparr>rowMap := AList.update entering row' (rowMap s2)\<rparr>)))"

text \<open>
  \<^verbatim>\<open>_optimize\<close> is called with \<^verbatim>\<open>this._objective\<close> or with \<^verbatim>\<open>this._artificial\<close>; the
  argument is a reference to a row that \<^verbatim>\<open>_substitute\<close> updates in place, so the model
  passes which of the two it is and reads the row from the state at each iteration.
\<close>

datatype ObjectiveRef = TheObjective | TheArtificial

definition deref :: "ObjectiveRef \<Rightarrow> Solver \<Rightarrow> Row option" where
  "deref ref s = (case ref of TheObjective \<Rightarrow> Some (objective s) | TheArtificial \<Rightarrow> artificial s)"

fun optimize :: "nat \<Rightarrow> ObjectiveRef \<Rightarrow> Solver \<Rightarrow> Solver Outcome" where
  "optimize 0 ref s = None"
| "optimize (Suc n) ref s =
     (case deref ref s of
        None \<Rightarrow> Some (Inl (TypeError, s))
      | Some obj \<Rightarrow>
          (let entering = getEnteringSymbol obj
           in if sym_type entering = Invalid then Some (Inr s)
              else (let leaving = getLeavingSymbol entering s
                    in if sym_type leaving = Invalid then Some (Inl (ObjectiveUnbounded, s))
                       else (case map_of (rowMap s) leaving of
                               None \<Rightarrow> Some (Inl (TypeError, s))
                             | Some row \<Rightarrow>
                                 (case pivot leaving entering row s of
                                    Inl e \<Rightarrow> Some (Inl e)
                                  | Inr s' \<Rightarrow> optimize n ref s')))))"

fun dualOptimize :: "nat \<Rightarrow> Solver \<Rightarrow> Solver Outcome" where
  "dualOptimize 0 s = None"
| "dualOptimize (Suc n) s =
     (if infeasibleRows s = [] then Some (Inr s)
      else (let leaving = last (infeasibleRows s);
                s1 = s\<lparr>infeasibleRows := butlast (infeasibleRows s)\<rparr>
            in case map_of (rowMap s1) leaving of
                 None \<Rightarrow> dualOptimize n s1
               | Some row \<Rightarrow>
                   if row_constant row < 0 then
                     (let entering = getDualEnteringSymbol row s1
                      in if sym_type entering = Invalid then Some (Inl (DualOptimizeFailed, s1))
                         else (case pivot leaving entering row s1 of
                                 Inl e \<Rightarrow> Some (Inl e)
                               | Inr s' \<Rightarrow> dualOptimize n s'))
                   else dualOptimize n s1))"

definition removeArtificial :: "Symbol \<Rightarrow> Solver \<Rightarrow> Solver" where
  "removeArtificial art s =
     s\<lparr>rowMap := map (\<lambda>(symbol, row2). (symbol, removeSymbol row2 art)) (rowMap s),
       objective := removeSymbol (objective s) art\<rparr>"

definition addWithArtificialVariable :: "nat \<Rightarrow> Row \<Rightarrow> Solver \<Rightarrow> (bool \<times> Solver) Outcome" where
  "addWithArtificialVariable fuel row s =
     (let (art, s1) = makeSymbol Slack s;
          s2 = s1\<lparr>rowMap := AList.update art (copy row) (rowMap s1),
                  artificial := Some (copy row)\<rparr>
      in case optimize fuel TheArtificial s2 of
           None \<Rightarrow> None
         | Some (Inl e) \<Rightarrow> Some (Inl e)
         | Some (Inr s3) \<Rightarrow>
             (case artificial s3 of
                None \<Rightarrow> Some (Inl (TypeError, s3))
              | Some a \<Rightarrow>
                  (let success = nearZero (row_constant a);
                       s4 = s3\<lparr>artificial := None\<rparr>
                   in case map_of (rowMap s4) art of
                        None \<Rightarrow> Some (Inr (success, removeArtificial art s4))
                      | Some basicRow \<Rightarrow>
                          (let s5 = s4\<lparr>rowMap := AList.delete art (rowMap s4)\<rparr>
                           in if isConstant basicRow then Some (Inr (success, s5))
                              else (let entering = anyPivotableSymbol basicRow
                                    in if sym_type entering = Invalid then Some (Inr (False, s5))
                                       else (case solveForEx basicRow art entering of
                                               None \<Rightarrow> Some (Inl (NonFinite, s5))
                                             | Some basicRow' \<Rightarrow>
                                                 (let s6 = solver_substitute entering basicRow' s5;
                                                      s7 = s6\<lparr>rowMap := AList.update entering basicRow' (rowMap s6)\<rparr>
                                                  in Some (Inr (success, removeArtificial art s7)))))))))"

section \<open>Public operations\<close>

definition hasConstraint :: "Constraint \<Rightarrow> Solver \<Rightarrow> bool" where
  "hasConstraint cn s = (map_of (cnMap s) cn \<noteq> None)"

definition hasEditVariable :: "Variable \<Rightarrow> Solver \<Rightarrow> bool" where
  "hasEditVariable variable s = (map_of (editMap s) variable \<noteq> None)"

definition addConstraint :: "nat \<Rightarrow> real \<Rightarrow> Constraint \<Rightarrow> Solver \<Rightarrow> Solver Outcome" where
  "addConstraint fuel req cn s =
     (if hasConstraint cn s then Some (Inl (DuplicateConstraint, s))
      else (let (row, tag, s1) = createRow req cn s;
                subject = chooseSubject row tag
            in if sym_type subject = Invalid \<and> allDummies row \<and> \<not> nearZero (row_constant row)
               then Some (Inl (UnsatisfiableConstraint, s1))
               else (let subject = (if sym_type subject = Invalid \<and> allDummies row
                                    then marker tag else subject)
                     in if sym_type subject = Invalid then
                          (case addWithArtificialVariable fuel row s1 of
                             None \<Rightarrow> None
                           | Some (Inl e) \<Rightarrow> Some (Inl e)
                           | Some (Inr (success, s2)) \<Rightarrow>
                               if \<not> success then Some (Inl (UnsatisfiableConstraint, s2))
                               else optimize fuel TheObjective
                                      (s2\<lparr>cnMap := AList.update cn tag (cnMap s2)\<rparr>))
                        else (case solveFor row subject of
                                None \<Rightarrow> Some (Inl (NonFinite, s1))
                              | Some row' \<Rightarrow>
                                  (let s2 = solver_substitute subject row' s1;
                                       s3 = s2\<lparr>rowMap := AList.update subject row' (rowMap s2)\<rparr>
                                   in optimize fuel TheObjective
                                        (s3\<lparr>cnMap := AList.update cn tag (cnMap s3)\<rparr>))))))"

definition removeConstraint :: "nat \<Rightarrow> Constraint \<Rightarrow> Solver \<Rightarrow> Solver Outcome" where
  "removeConstraint fuel cn s =
     (case map_of (cnMap s) cn of
        None \<Rightarrow> Some (Inl (UnknownConstraint, s))
      | Some tag \<Rightarrow>
          (let s1 = s\<lparr>cnMap := AList.delete cn (cnMap s)\<rparr>;
               s2 = removeConstraintEffects cn tag s1;
               mk = marker tag
           in if map_of (rowMap s2) mk \<noteq> None
              then optimize fuel TheObjective (s2\<lparr>rowMap := AList.delete mk (rowMap s2)\<rparr>)
              else (let leaving = getMarkerLeavingSymbol mk s2
                    in if sym_type leaving = Invalid then Some (Inl (NoLeavingRow, s2))
                       else (case map_of (rowMap s2) leaving of
                               None \<Rightarrow> Some (Inl (TypeError, s2))
                             | Some row \<Rightarrow>
                                 (let s3 = s2\<lparr>rowMap := AList.delete leaving (rowMap s2)\<rparr>
                                  in case solveForEx row leaving mk of
                                       None \<Rightarrow> Some (Inl (NonFinite, s3))
                                     | Some row' \<Rightarrow>
                                         optimize fuel TheObjective
                                           (solver_substitute mk row' s3))))))"

text \<open>
  \<^verbatim>\<open>addEditVariable\<close> allocates a new \<^verbatim>\<open>Constraint\<close> object for \<open>v == 0\<close>; the identity of
  that object is the parameter \<open>cid\<close>.
\<close>

definition addEditVariable ::
    "nat \<Rightarrow> real \<Rightarrow> nat \<Rightarrow> Variable \<Rightarrow> real \<Rightarrow> Solver \<Rightarrow> Solver Outcome" where
  "addEditVariable fuel req cid variable strength_v s =
     (if hasEditVariable variable s then Some (Inl (DuplicateEditVariable, s))
      else (let clipped = clip req strength_v
            in if clipped = req then Some (Inl (BadRequiredStrength, s))
               else (let expr = \<lparr>terms = [(variable, 1)], expr_constant = 0\<rparr>;
                         cn = \<lparr>cn_id = cid, expression = expr, op = Eq, strength = clipped\<rparr>
                     in case addConstraint fuel req cn s of
                          None \<Rightarrow> None
                        | Some (Inl e) \<Rightarrow> Some (Inl e)
                        | Some (Inr s1) \<Rightarrow>
                            (case map_of (cnMap s1) cn of
                               None \<Rightarrow> Some (Inl (TypeError, s1))
                             | Some tag \<Rightarrow>
                                 (let info = \<lparr>info_tag = tag, info_constraint = cn,
                                              info_constant = 0\<rparr>
                                  in Some (Inr (s1\<lparr>editMap :=
                                       AList.update variable info (editMap s1)\<rparr>)))))))"

definition removeEditVariable :: "nat \<Rightarrow> Variable \<Rightarrow> Solver \<Rightarrow> Solver Outcome" where
  "removeEditVariable fuel variable s =
     (case map_of (editMap s) variable of
        None \<Rightarrow> Some (Inl (UnknownEditVariable, s))
      | Some info \<Rightarrow>
          removeConstraint fuel (info_constraint info)
            (s\<lparr>editMap := AList.delete variable (editMap s)\<rparr>))"

definition suggestValue_row ::
    "Symbol \<Rightarrow> real \<Rightarrow> Symbol \<times> Row \<Rightarrow> (Symbol \<times> Row) list \<times> Symbol list
       \<Rightarrow> (Symbol \<times> Row) list \<times> Symbol list" where
  "suggestValue_row mk delta = (\<lambda>(symbol, row) (rows, infeasible).
     (let coeff = coefficientFor row mk
      in if coeff \<noteq> 0 then
           (let row' = add row (delta * coeff)
            in if row_constant row' < 0 \<and> sym_type symbol \<noteq> External
               then (rows @ [(symbol, row')], infeasible @ [symbol])
               else (rows @ [(symbol, row')], infeasible))
         else (rows @ [(symbol, row)], infeasible)))"

definition suggestValue :: "nat \<Rightarrow> Variable \<Rightarrow> real \<Rightarrow> Solver \<Rightarrow> Solver Outcome" where
  "suggestValue fuel variable v s =
     (case map_of (editMap s) variable of
        None \<Rightarrow> Some (Inl (UnknownEditVariable, s))
      | Some info \<Rightarrow>
          (let delta = v - info_constant info;
               s1 = s\<lparr>editMap := AList.update variable (info\<lparr>info_constant := v\<rparr>) (editMap s)\<rparr>;
               mk = marker (info_tag info)
           in case map_of (rowMap s1) mk of
                Some row \<Rightarrow>
                  (let row' = add row (- delta);
                       s2 = s1\<lparr>rowMap := AList.update mk row' (rowMap s1)\<rparr>
                   in dualOptimize fuel
                        (if row_constant row' < 0
                         then s2\<lparr>infeasibleRows := infeasibleRows s2 @ [mk]\<rparr> else s2))
              | None \<Rightarrow>
                  (let ot = other (info_tag info)
                   in case map_of (rowMap s1) ot of
                        Some row \<Rightarrow>
                          (let row' = add row delta;
                               s2 = s1\<lparr>rowMap := AList.update ot row' (rowMap s1)\<rparr>
                           in dualOptimize fuel
                                (if row_constant row' < 0
                                 then s2\<lparr>infeasibleRows := infeasibleRows s2 @ [ot]\<rparr> else s2))
                      | None \<Rightarrow>
                          (let (rows, infeasible) =
                                 fold (suggestValue_row mk delta) (rowMap s1)
                                   ([], infeasibleRows s1)
                           in dualOptimize fuel
                                (s1\<lparr>rowMap := rows, infeasibleRows := infeasible\<rparr>)))))"

text \<open>
  \<^verbatim>\<open>updateVariables\<close> has no \<^verbatim>\<open>throw\<close> and no loop besides the walk over the variable map,
  so it is a total function. It returns the solver it was called on together with the store
  of variable values.
\<close>

definition updateVariables :: "Solver \<Rightarrow> VarStore \<Rightarrow> Solver \<times> VarStore" where
  "updateVariables s store =
     fold (\<lambda>(variable, symbol) (this, st).
             case map_of (rowMap this) symbol of
               Some row \<Rightarrow> (this, setValue variable (row_constant row) st)
             | None \<Rightarrow> (this, setValue variable 0 st))
       (varMap s) (s, store)"

section \<open>Definitions that follow the specification\<close>

text \<open>
  The value \<^verbatim>\<open>updateVariables\<close> is specified to give a variable whose symbol is \<open>symbol\<close>:
  the constant of the basis row keyed by the symbol, or 0 when the symbol is parametric.
\<close>

definition readback :: "Solver \<Rightarrow> Symbol \<Rightarrow> real" where
  "readback s symbol =
     (case map_of (rowMap s) symbol of Some row \<Rightarrow> row_constant row | None \<Rightarrow> 0)"

text \<open>
  Subject selection as the specification words it: the first External symbol among the
  cells in iteration order, otherwise the marker if it is a Slack or Error with a negative
  coefficient, otherwise the other tag symbol under the same test, otherwise Invalid.
\<close>

definition chooseSubject_spec :: "Row \<Rightarrow> Tag \<Rightarrow> Symbol" where
  "chooseSubject_spec row tag =
     (case find (\<lambda>(symbol, coefficient). sym_type symbol = External) (cellMap row) of
        Some (symbol, coefficient) \<Rightarrow> symbol
      | None \<Rightarrow>
          if sym_type (marker tag) \<in> {Slack, Error} \<and> coefficientFor row (marker tag) < 0
          then marker tag
          else if sym_type (other tag) \<in> {Slack, Error} \<and> coefficientFor row (other tag) < 0
          then other tag
          else INVALID_SYMBOL)"


text \<open>
  \<^verbatim>\<open>suggestValue\<close> as the specification words it. \<open>bumpRow\<close> adds an amount to the constant
  of the basis row keyed by a symbol and enqueues the symbol exactly when the new constant
  is negative.
\<close>

definition bumpRow :: "Symbol \<Rightarrow> real \<Rightarrow> Solver \<Rightarrow> Solver" where
  "bumpRow symbol d s =
     (case map_of (rowMap s) symbol of
        None \<Rightarrow> s
      | Some row \<Rightarrow>
          (let c = row_constant row + d;
               s' = s\<lparr>rowMap := AList.update symbol (row\<lparr>row_constant := c\<rparr>) (rowMap s)\<rparr>
           in if c < 0 then s'\<lparr>infeasibleRows := infeasibleRows s' @ [symbol]\<rparr> else s'))"

definition suggestValue_spec :: "nat \<Rightarrow> Variable \<Rightarrow> real \<Rightarrow> Solver \<Rightarrow> Solver Outcome" where
  "suggestValue_spec fuel variable v s =
     (case map_of (editMap s) variable of
        None \<Rightarrow> Some (Inl (UnknownEditVariable, s))
      | Some info \<Rightarrow>
          (let delta = v - info_constant info;
               s1 = s\<lparr>editMap := AList.update variable (info\<lparr>info_constant := v\<rparr>) (editMap s)\<rparr>;
               mk = marker (info_tag info);
               ot = other (info_tag info);
               basic = set (map fst (rowMap s))
           in if mk \<in> basic then dualOptimize fuel (bumpRow mk (- delta) s1)
              else if ot \<in> basic then dualOptimize fuel (bumpRow ot delta s1)
              else dualOptimize fuel
                     (s1\<lparr>rowMap :=
                           map (\<lambda>(symbol, row).
                                  (symbol,
                                   if coefficientFor row mk \<noteq> 0
                                   then row\<lparr>row_constant :=
                                          row_constant row + delta * coefficientFor row mk\<rparr>
                                   else row))
                             (rowMap s),
                         infeasibleRows :=
                           infeasibleRows s @
                           map fst (filter (\<lambda>(symbol, row).
                                      coefficientFor row mk \<noteq> 0 \<and>
                                      row_constant row + delta * coefficientFor row mk < 0 \<and>
                                      sym_type symbol \<noteq> External)
                                    (rowMap s))\<rparr>)))"












text \<open>
  Well-formedness of a basis: the keys are distinct, the cells of each row have distinct
  symbols, and no row mentions a symbol that is a key of the basis (rows are written over
  parametric symbols). \<open>feasible\<close>: every row keyed by a symbol that is not External has a
  non-negative constant. \<open>feasible_all\<close>: every row has a constant of at least \<open>- 10^-8\<close>.
  \<open>pending_ok\<close>: the key of every negative row that is not External is on the worklist.
\<close>

definition row_symbols :: "Row \<Rightarrow> Symbol set" where
  "row_symbols row = fst ` set (cellMap row)"








section \<open>Example constraints and states\<close>

text \<open>
  The value of \<^verbatim>\<open>Strength.required\<close> is not in the sources; the examples use
  \<open>1000 * 10^6 + 1000 * 10^3 + 1000\<close>, and \<open>10^6\<close> for a strong strength. Variable \<open>x\<close> is
  variable 0 and \<open>y\<close> is variable 1.
\<close>

definition required :: real where
  "required = 1001001000"

definition strong :: real where
  "strong = 1000000"

definition constraint_of :: "nat \<Rightarrow> (Variable \<times> real) list \<Rightarrow> real \<Rightarrow> Operator \<Rightarrow> real \<Rightarrow> Constraint" where
  "constraint_of i ts c opr st =
     \<lparr>cn_id = i, expression = \<lparr>terms = ts, expr_constant = c\<rparr>, op = opr, strength = st\<rparr>"

text \<open>The state after \<open>x \<ge> 0\<close> (required) was added and \<open>x\<close> was made an edit variable.\<close>

definition edit_state :: Solver where
  "edit_state =
     \<lparr>cnMap =
        [(constraint_of 0 [(0, 1)] 0 Ge required,
          \<lparr>marker = Symbol Slack 1, other = INVALID_SYMBOL\<rparr>),
         (constraint_of 1 [(0, 1)] 0 Eq strong,
          \<lparr>marker = Symbol Error 2, other = Symbol Error 3\<rparr>)],
      rowMap =
        [(Symbol External 0, \<lparr>cellMap = [(Symbol Slack 1, 1)], row_constant = 0\<rparr>),
         (Symbol Error 2,
          \<lparr>cellMap = [(Symbol Slack 1, 1), (Symbol Error 3, 1)], row_constant = 0\<rparr>)],
      varMap = [(0, Symbol External 0)],
      editMap =
        [(0, \<lparr>info_tag = \<lparr>marker = Symbol Error 2, other = Symbol Error 3\<rparr>,
               info_constraint = constraint_of 1 [(0, 1)] 0 Eq strong,
               info_constant = 0\<rparr>)],
      infeasibleRows = [],
      objective =
        \<lparr>cellMap = [(Symbol Error 3, 2000000), (Symbol Slack 1, 1000000)], row_constant = 0\<rparr>,
      artificial = None, idTick = 4\<rparr>"

text \<open>The state after \<open>suggestValue x 42\<close> in \<^const>\<open>edit_state\<close>.\<close>

definition edit_state_42 :: Solver where
  "edit_state_42 =
     \<lparr>cnMap =
        [(constraint_of 0 [(0, 1)] 0 Ge required,
          \<lparr>marker = Symbol Slack 1, other = INVALID_SYMBOL\<rparr>),
         (constraint_of 1 [(0, 1)] 0 Eq strong,
          \<lparr>marker = Symbol Error 2, other = Symbol Error 3\<rparr>)],
      rowMap =
        [(Symbol External 0,
          \<lparr>cellMap = [(Symbol Error 3, - 1), (Symbol Error 2, 1)], row_constant = 42\<rparr>),
         (Symbol Slack 1,
          \<lparr>cellMap = [(Symbol Error 3, - 1), (Symbol Error 2, 1)], row_constant = 42\<rparr>)],
      varMap = [(0, Symbol External 0)],
      editMap =
        [(0, \<lparr>info_tag = \<lparr>marker = Symbol Error 2, other = Symbol Error 3\<rparr>,
               info_constraint = constraint_of 1 [(0, 1)] 0 Eq strong,
               info_constant = 42\<rparr>)],
      infeasibleRows = [],
      objective =
        \<lparr>cellMap = [(Symbol Error 3, 1000000), (Symbol Error 2, 1000000)],
         row_constant = 42000000\<rparr>,
      artificial = None, idTick = 4\<rparr>"

definition row_of :: "real \<Rightarrow> (Symbol \<times> real) list \<Rightarrow> Row" where
  "row_of c cells = \<lparr>cellMap = cells, row_constant = c\<rparr>"

definition state_of ::
    "(Constraint \<times> Tag) list \<Rightarrow> (Symbol \<times> Row) list \<Rightarrow> (Variable \<times> Symbol) list
       \<Rightarrow> Symbol list \<Rightarrow> int \<Rightarrow> Solver" where
  "state_of cns rows vars infeasible tick =
     \<lparr>cnMap = cns, rowMap = rows, varMap = vars, editMap = [], infeasibleRows = infeasible,
      objective = row_of 0 [], artificial = None, idTick = tick\<rparr>"

text \<open>Required \<open>x = -5\<close>, written \<open>x + 5 == 0\<close>, and the state after it is added first.\<close>

definition cn_x_eq_minus5 :: Constraint where
  "cn_x_eq_minus5 = constraint_of 0 [(0, 1)] 5 Eq required"

definition minus5_state :: Solver where
  "minus5_state =
     state_of [(cn_x_eq_minus5, \<lparr>marker = Symbol Dummy 1, other = INVALID_SYMBOL\<rparr>)]
       [(Symbol External 0, row_of (- 5) [(Symbol Dummy 1, - 1)])]
       [(0, Symbol External 0)] [] 2"

text \<open>Required \<open>x \<le> 5\<close> followed by required \<open>x \<ge> 10\<close>, which cannot both hold.\<close>

definition cn_x_le_5 :: Constraint where
  "cn_x_le_5 = constraint_of 0 [(0, 1)] (- 5) Le required"

definition cn_x_ge_10 :: Constraint where
  "cn_x_ge_10 = constraint_of 1 [(0, 1)] (- 10) Ge required"

definition le5_state :: Solver where
  "le5_state =
     state_of [(cn_x_le_5, \<lparr>marker = Symbol Slack 1, other = INVALID_SYMBOL\<rparr>)]
       [(Symbol External 0, row_of 5 [(Symbol Slack 1, - 1)])]
       [(0, Symbol External 0)] [] 2"

definition le5_failed_state :: Solver where
  "le5_failed_state =
     state_of [(cn_x_le_5, \<lparr>marker = Symbol Slack 1, other = INVALID_SYMBOL\<rparr>)]
       [(Symbol External 0, row_of 10 [(Symbol Slack 2, 1)]),
        (Symbol Slack 1, row_of (- 5) [(Symbol Slack 2, - 1)])]
       [(0, Symbol External 0)] [] 4"

text \<open>
  Required \<open>x \<ge> 2\<close> and \<open>x \<le> 8\<close>; then required \<open>x \<ge> 5\<close> is added and removed again.
\<close>

definition cn_x_ge_2 :: Constraint where
  "cn_x_ge_2 = constraint_of 0 [(0, 1)] (- 2) Ge required"

definition cn_x_le_8 :: Constraint where
  "cn_x_le_8 = constraint_of 1 [(0, 1)] (- 8) Le required"

definition cn_x_ge_5 :: Constraint where
  "cn_x_ge_5 = constraint_of 2 [(0, 1)] (- 5) Ge required"

definition interval_tags :: "(Constraint \<times> Tag) list" where
  "interval_tags =
     [(cn_x_ge_2, \<lparr>marker = Symbol Slack 1, other = INVALID_SYMBOL\<rparr>),
      (cn_x_le_8, \<lparr>marker = Symbol Slack 2, other = INVALID_SYMBOL\<rparr>)]"

definition interval_state :: Solver where
  "interval_state =
     state_of interval_tags
       [(Symbol External 0, row_of 2 [(Symbol Slack 1, 1)]),
        (Symbol Slack 2, row_of 6 [(Symbol Slack 1, - 1)])]
       [(0, Symbol External 0)] [] 3"

definition interval_added_state :: Solver where
  "interval_added_state =
     state_of (interval_tags @ [(cn_x_ge_5, \<lparr>marker = Symbol Slack 3, other = INVALID_SYMBOL\<rparr>)])
       [(Symbol External 0, row_of 5 [(Symbol Slack 3, 1)]),
        (Symbol Slack 2, row_of 3 [(Symbol Slack 3, - 1)]),
        (Symbol Slack 1, row_of 3 [(Symbol Slack 3, 1)])]
       [(0, Symbol External 0)] [] 5"

definition interval_removed_state :: Solver where
  "interval_removed_state =
     state_of interval_tags
       [(Symbol External 0, row_of 8 [(Symbol Slack 2, - 1)]),
        (Symbol Slack 1, row_of 6 [(Symbol Slack 2, - 1)])]
       [(0, Symbol External 0)] [] 5"

text \<open>
  Required \<open>x \<le> 0\<close>, required \<open>x / 1000 \<ge> 5 / 10^9\<close> (accepted by the near-zero test of the
  artificial phase) and required \<open>y = 1\<close>.
\<close>

definition cn_x_le_0 :: Constraint where
  "cn_x_le_0 = constraint_of 0 [(0, 1)] 0 Le required"

definition cn_x_tiny :: Constraint where
  "cn_x_tiny = constraint_of 1 [(0, 1 / 1000)] (- (5 / 10 ^ 9)) Ge required"

definition cn_y_eq_1 :: Constraint where
  "cn_y_eq_1 = constraint_of 2 [(1, 1)] (- 1) Eq required"

definition tiny_state1 :: Solver where
  "tiny_state1 =
     state_of [(cn_x_le_0, \<lparr>marker = Symbol Slack 1, other = INVALID_SYMBOL\<rparr>)]
       [(Symbol External 0, row_of 0 [(Symbol Slack 1, - 1)])]
       [(0, Symbol External 0)] [] 2"

definition tiny_state2 :: Solver where
  "tiny_state2 =
     state_of [(cn_x_le_0, \<lparr>marker = Symbol Slack 1, other = INVALID_SYMBOL\<rparr>),
               (cn_x_tiny, \<lparr>marker = Symbol Slack 2, other = INVALID_SYMBOL\<rparr>)]
       [(Symbol External 0, row_of (1 / 200000) [(Symbol Slack 2, 1000)]),
        (Symbol Slack 1, row_of (- (1 / 200000)) [(Symbol Slack 2, - 1000)])]
       [(0, Symbol External 0)] [] 4"

definition tiny_state3 :: Solver where
  "tiny_state3 =
     state_of [(cn_x_le_0, \<lparr>marker = Symbol Slack 1, other = INVALID_SYMBOL\<rparr>),
               (cn_x_tiny, \<lparr>marker = Symbol Slack 2, other = INVALID_SYMBOL\<rparr>),
               (cn_y_eq_1, \<lparr>marker = Symbol Dummy 5, other = INVALID_SYMBOL\<rparr>)]
       [(Symbol External 0, row_of (1 / 200000) [(Symbol Slack 2, 1000)]),
        (Symbol Slack 1, row_of (- (1 / 200000)) [(Symbol Slack 2, - 1000)]),
        (Symbol External 4, row_of 1 [(Symbol Dummy 5, - 1)])]
       [(0, Symbol External 0), (1, Symbol External 4)] [Symbol Slack 1] 6"

text \<open>Required \<open>2 x + y / 10^8 = 0\<close> and the state after it is added first.\<close>

definition cn_small_coefficient :: Constraint where
  "cn_small_coefficient = constraint_of 0 [(0, 2), (1, 1 / 10 ^ 8)] 0 Eq required"

definition small_coefficient_state :: Solver where
  "small_coefficient_state =
     state_of [(cn_small_coefficient, \<lparr>marker = Symbol Dummy 2, other = INVALID_SYMBOL\<rparr>)]
       [(Symbol External 0,
         row_of 0 [(Symbol External 1, - (1 / 200000000)), (Symbol Dummy 2, - (1 / 2))])]
       [(0, Symbol External 0), (1, Symbol External 1)] [] 3"

text \<open>
  Required \<open>x \<le> M\<close> and required \<open>x \<ge> 0\<close>, where \<open>M\<close> is \<^verbatim>\<open>Number.MAX_VALUE\<close>, and the state
  after both are added to a new solver: the rows of \<open>x\<close> and of the second slack both are
  \<open>M - s1\<close>, where the first slack \<open>s1\<close> is the marker of \<open>x \<le> M\<close>.
\<close>

definition cn_x_le_max :: Constraint where
  "cn_x_le_max = constraint_of 0 [(0, 1)] (- MAX_VALUE) Le required"

definition cn_x_ge_0 :: Constraint where
  "cn_x_ge_0 = constraint_of 1 [(0, 1)] 0 Ge required"

definition max_state1 :: Solver where
  "max_state1 =
     state_of [(cn_x_le_max, \<lparr>marker = Symbol Slack 1, other = INVALID_SYMBOL\<rparr>)]
       [(Symbol External 0, row_of MAX_VALUE [(Symbol Slack 1, - 1)])]
       [(0, Symbol External 0)] [] 2"

definition max_state :: Solver where
  "max_state =
     state_of [(cn_x_le_max, \<lparr>marker = Symbol Slack 1, other = INVALID_SYMBOL\<rparr>),
               (cn_x_ge_0, \<lparr>marker = Symbol Slack 2, other = INVALID_SYMBOL\<rparr>)]
       [(Symbol External 0, row_of MAX_VALUE [(Symbol Slack 1, - 1)]),
        (Symbol Slack 2, row_of MAX_VALUE [(Symbol Slack 1, - 1)])]
       [(0, Symbol External 0)] [] 3"

section \<open>Evaluating the model on concrete inputs\<close>

lemmas model_defs =
  nearZero_def MAX_VALUE_def INVALID_SYMBOL_def isConstant_def allDummies_def copy_def add_def
  coefficientFor_def insertSymbol_def insertRow_def removeSymbol_def reverseSign_def
  solveFor_def solveForEx_def substitute_def makeSymbol_def getVarSymbol_def
  createRow_term_def createRow_def chooseSubject_def anyPivotableSymbol_def
  solver_substitute_def getEnteringSymbol_def getDualEnteringSymbol_def getLeavingSymbol_def
  markerScan_step_def getMarkerLeavingSymbol_def removeMarkerEffects_def removeConstraintEffects_def pivot_def
  deref_def removeArtificial_def addWithArtificialVariable_def hasConstraint_def
  hasEditVariable_def addConstraint_def removeConstraint_def addEditVariable_def
  removeEditVariable_def suggestValue_row_def suggestValue_def clip_def newSolver_def
  Let_def eval_nat_numeral

lemmas example_defs =
  required_def strong_def constraint_of_def row_of_def state_of_def edit_state_def
  edit_state_42_def cn_x_eq_minus5_def minus5_state_def cn_x_le_5_def cn_x_ge_10_def
  le5_state_def le5_failed_state_def cn_x_ge_2_def cn_x_le_8_def cn_x_ge_5_def
  interval_tags_def interval_state_def interval_added_state_def interval_removed_state_def
  cn_x_le_0_def cn_x_tiny_def cn_y_eq_1_def tiny_state1_def tiny_state2_def tiny_state3_def
  cn_small_coefficient_def small_coefficient_state_def cn_x_le_max_def cn_x_ge_0_def
  max_state1_def max_state_def

section \<open>The example states are states of the solver\<close>

lemma edit_state_reached:
  "addConstraint 1 required (constraint_of 0 [(0, 1)] 0 Ge required) newSolver =
     Some (Inr (state_of [(constraint_of 0 [(0, 1)] 0 Ge required,
                           \<lparr>marker = Symbol Slack 1, other = INVALID_SYMBOL\<rparr>)]
                  [(Symbol External 0, row_of 0 [(Symbol Slack 1, 1)])]
                  [(0, Symbol External 0)] [] 2))
   \<and> addEditVariable 2 required 1 0 strong
        (state_of [(constraint_of 0 [(0, 1)] 0 Ge required,
                    \<lparr>marker = Symbol Slack 1, other = INVALID_SYMBOL\<rparr>)]
           [(Symbol External 0, row_of 0 [(Symbol Slack 1, 1)])]
           [(0, Symbol External 0)] [] 2) = Some (Inr edit_state)"
  by (simp add: model_defs example_defs)

lemma edit_state_42_reached: "suggestValue 2 0 42 edit_state = Some (Inr edit_state_42)"
  by (simp add: model_defs example_defs)

lemma interval_state_reached:
  "addConstraint 1 required cn_x_ge_2 newSolver =
     Some (Inr (state_of [hd interval_tags]
                  [(Symbol External 0, row_of 2 [(Symbol Slack 1, 1)])]
                  [(0, Symbol External 0)] [] 2))
   \<and> addConstraint 1 required cn_x_le_8
        (state_of [hd interval_tags]
           [(Symbol External 0, row_of 2 [(Symbol Slack 1, 1)])]
           [(0, Symbol External 0)] [] 2) = Some (Inr interval_state)"
  by (simp add: model_defs example_defs)

section \<open>Variable readback\<close>

lemma map_of_rev_distinct: "distinct (map fst xs) \<Longrightarrow> map_of (rev xs) = map_of xs"
  by (subst map_of_inject_set) (simp_all add: rev_map [symmetric])

lemma updateVariables_fold:
  "fold (\<lambda>(variable, symbol) (this, st).
             case map_of (rowMap this) symbol of
               Some row \<Rightarrow> (this, setValue variable (row_constant row) st)
             | None \<Rightarrow> (this, setValue variable 0 st)) xs (s, st)
   = (s, (\<lambda>v. case map_of (rev xs) v of None \<Rightarrow> st v | Some symbol \<Rightarrow> readback s symbol))"
proof (induction xs arbitrary: st)
  case Nil
  show ?case by simp
next
  case (Cons x xs)
  obtain variable symbol where x: "x = (variable, symbol)" by (cases x)
  show ?case
    by (simp add: x Cons.IH setValue_def readback_def map_add_def fun_eq_iff
             split: option.splits)
qed

lemma updateVariables_eq:
  "updateVariables s store =
     (s, (\<lambda>v. case map_of (rev (varMap s)) v of
                 None \<Rightarrow> store v | Some symbol \<Rightarrow> readback s symbol))"
  unfolding updateVariables_def by (rule updateVariables_fold)

text \<open>
  C9. \<^verbatim>\<open>updateVariables\<close> sets, for each pair \<open>(variable, symbol)\<close> of the variable map, the
  variable's value to the constant of the basis row keyed by the symbol, and to 0 when the
  symbol is parametric. A second call with no mutation in between leaves every variable
  with the value the first call gave it. The keys of the variable map are distinct, as the
  keys of a \<^verbatim>\<open>Map\<close> are.
\<close>

theorem updateVariables_readback:
  assumes "distinct (map fst (varMap s))"
  shows "(\<forall>(variable, symbol) \<in> set (varMap s).
            snd (updateVariables s store) variable = readback s symbol) \<and>
         snd (updateVariables s (snd (updateVariables s store))) = snd (updateVariables s store)"
proof -
  have "map_of (rev (varMap s)) = map_of (varMap s)"
    using assms by (rule map_of_rev_distinct)
  then have "snd (updateVariables s store) variable = readback s symbol"
    if "(variable, symbol) \<in> set (varMap s)" for variable symbol
    using that assms by (simp add: updateVariables_eq)
  moreover have "snd (updateVariables s (snd (updateVariables s store))) =
      snd (updateVariables s store)"
    by (auto simp add: updateVariables_eq fun_eq_iff split: option.splits)
  ultimately show ?thesis by auto
qed

theorem updateVariables_readback_witness:
  "distinct (map fst (varMap edit_state_42)) \<and>
   snd (updateVariables edit_state_42 (\<lambda>v. 0)) 0 = 42 \<and>
   snd (updateVariables edit_state_42 (snd (updateVariables edit_state_42 (\<lambda>v. 0)))) =
     snd (updateVariables edit_state_42 (\<lambda>v. 0))"
proof -
  have d: "distinct (map fst (varMap edit_state_42))"
    by (simp add: edit_state_42_def)
  have m: "(0, Symbol External 0) \<in> set (varMap edit_state_42)"
    by (simp add: edit_state_42_def)
  have r: "readback edit_state_42 (Symbol External 0) = 42"
    by (simp add: readback_def edit_state_42_def)
  from updateVariables_readback [OF d, of "\<lambda>v. 0"] m r d show ?thesis by auto
qed

text \<open>
  C10. \<^verbatim>\<open>updateVariables\<close> returns the solver it was given, with every field as it was
  (constraint map, basis, variable map, edit map, worklist, objective, artificial row and
  id counter), and it writes the value slot of no variable outside the variable map. It has
  no failing branch.
\<close>

theorem updateVariables_frame:
  "fst (updateVariables s store) = s \<and>
   (\<forall>v. v \<notin> fst ` set (varMap s) \<longrightarrow> snd (updateVariables s store) v = store v)"
proof -
  have "map_of (rev (varMap s)) v = None" if "v \<notin> fst ` set (varMap s)" for v
    using that by (simp add: map_of_eq_None_iff)
  then show ?thesis by (simp add: updateVariables_eq)
qed

theorem updateVariables_frame_witness:
  "fst (updateVariables edit_state_42 (\<lambda>v. 7)) = edit_state_42 \<and>
   1 \<notin> fst ` set (varMap edit_state_42) \<and>
   snd (updateVariables edit_state_42 (\<lambda>v. 7)) 1 = 7 \<and>
   snd (updateVariables edit_state_42 (\<lambda>v. 7)) 0 = 42"
proof -
  have n: "1 \<notin> fst ` set (varMap edit_state_42)"
    by (simp add: edit_state_42_def)
  have v: "snd (updateVariables edit_state_42 (\<lambda>v. 7)) 0 = 42"
    by (simp add: updateVariables_eq readback_def edit_state_42_def)
  from updateVariables_frame [of edit_state_42 "\<lambda>v. 7"] n v show ?thesis by simp
qed

section \<open>Subject selection\<close>

lemma External_not_INVALID: "sym_type symbol = External \<Longrightarrow> symbol \<noteq> INVALID_SYMBOL"
  by (auto simp add: INVALID_SYMBOL_def)

lemma chooseSubject_fold:
  "fold (\<lambda>(symbol, coefficient) found.
           if found = INVALID_SYMBOL \<and> sym_type symbol = External then symbol else found) xs acc
   = (if acc \<noteq> INVALID_SYMBOL then acc
      else case find (\<lambda>(symbol, coefficient). sym_type symbol = External) xs of
             Some (symbol, coefficient) \<Rightarrow> symbol | None \<Rightarrow> INVALID_SYMBOL)"
proof (induction xs arbitrary: acc)
  case Nil
  show ?case by simp
next
  case (Cons x xs)
  show ?case by (cases x) (simp add: Cons.IH External_not_INVALID)
qed

text \<open>
  C6. For every row and tag, \<^verbatim>\<open>_chooseSubject\<close> returns the first External symbol among the
  row's cells in iteration order, whatever its coefficient; otherwise the marker if it is a
  Slack or Error whose coefficient in the row is negative; otherwise the other tag symbol
  under the same test; otherwise the Invalid symbol.
\<close>

theorem chooseSubject_precedence: "chooseSubject row tag = chooseSubject_spec row tag"
proof (cases "find (\<lambda>(symbol, coefficient). sym_type symbol = External) (cellMap row)")
  case None
  then show ?thesis
    by (simp add: chooseSubject_def chooseSubject_spec_def chooseSubject_fold)
next
  case (Some p)
  obtain symbol coefficient where p: "p = (symbol, coefficient)" by (cases p)
  from Some have "sym_type symbol = External"
    by (auto simp add: p find_Some_iff)
  then have "symbol \<noteq> INVALID_SYMBOL" by (rule External_not_INVALID)
  with Some show ?thesis
    by (simp add: chooseSubject_def chooseSubject_spec_def chooseSubject_fold p)
qed

section \<open>Failure of \<^verbatim>\<open>addConstraint\<close> in the artificial-variable phase\<close>

text \<open>
  C2. After a failed public call the constraint map, basis rows, objective, edit map and
  worklist should be as before the call. On the solver holding required \<open>x \<le> 5\<close>, adding
  required \<open>x \<ge> 10\<close> raises the unsatisfiable-constraint error from the artificial-variable
  phase, and the basis at the throw differs from the basis before the call: the row of \<open>x\<close>
  has constant 10 instead of 5, and a row keyed by the first slack with constant \<open>-5\<close> has
  been installed.
\<close>

theorem addConstraint_failure_changes_basis:
  "addConstraint 1 required cn_x_le_5 newSolver = Some (Inr le5_state) \<and>
   addConstraint 1 required cn_x_ge_10 le5_state =
     Some (Inl (UnsatisfiableConstraint, le5_failed_state)) \<and>
   rowMap le5_state = [(Symbol External 0, row_of 5 [(Symbol Slack 1, - 1)])] \<and>
   rowMap le5_failed_state =
     [(Symbol External 0, row_of 10 [(Symbol Slack 2, 1)]),
      (Symbol Slack 1, row_of (- 5) [(Symbol Slack 2, - 1)])] \<and>
   readback le5_state (Symbol External 0) = 5 \<and>
   readback le5_failed_state (Symbol External 0) = 10"
  by (simp add: model_defs example_defs readback_def)

section \<open>The infeasible worklist\<close>

text \<open>
  C4, as stated, fails: three successful \<^verbatim>\<open>addConstraint\<close> calls on a new solver leave a
  symbol on the worklist. The second call goes through the artificial-variable phase, which
  accepts an artificial objective of \<open>5 / 10^9\<close> as zero and installs a row with a negative
  constant; the substitution of the third call enqueues that row, and \<^verbatim>\<open>addConstraint\<close>
  never runs the dual optimiser.
\<close>

theorem addConstraint_leaves_worklist:
  "addConstraint 1 required cn_x_le_0 newSolver = Some (Inr tiny_state1) \<and>
   addConstraint 1 required cn_x_tiny tiny_state1 = Some (Inr tiny_state2) \<and>
   addConstraint 1 required cn_y_eq_1 tiny_state2 = Some (Inr tiny_state3) \<and>
   infeasibleRows tiny_state3 = [Symbol Slack 1]"
  by (simp add: model_defs example_defs)

lemma dualOptimize_empties:
  "dualOptimize n s = Some (Inr s') \<Longrightarrow> infeasibleRows s' = []"
proof (induction n arbitrary: s)
  case 0
  then show ?case by simp
next
  case (Suc n)
  then show ?case
    by (auto simp add: Let_def split: if_splits option.splits sum.splits)
qed

text \<open>
  C4, amended. After every \<^verbatim>\<open>suggestValue\<close> call that returns successfully the infeasible
  worklist is empty: the call ends in the dual optimiser, which returns only on an empty
  worklist.
\<close>

theorem suggestValue_empties_worklist:
  "suggestValue fuel variable v s = Some (Inr s') \<Longrightarrow> infeasibleRows s' = []"
  by (auto simp add: suggestValue_def Let_def split: option.splits prod.splits
           dest: dualOptimize_empties)

theorem suggestValue_empties_worklist_witness:
  "suggestValue 2 0 42 edit_state = Some (Inr edit_state_42) \<and> infeasibleRows edit_state_42 = []"
proof -
  have h: "suggestValue 2 0 42 edit_state = Some (Inr edit_state_42)"
    by (simp add: model_defs example_defs)
  from suggestValue_empties_worklist [OF h] h show ?thesis by simp
qed

section \<open>The coefficient invariant of rows\<close>















section \<open>Suggesting a value\<close>

lemma suggestValue_row_step:
  "suggestValue_row mk delta (symbol, row) (rows, infeasible) =
     (rows @ [(symbol,
               if coefficientFor row mk \<noteq> 0
               then row\<lparr>row_constant := row_constant row + delta * coefficientFor row mk\<rparr>
               else row)],
      infeasible @ (if coefficientFor row mk \<noteq> 0 \<and>
                       row_constant row + delta * coefficientFor row mk < 0 \<and>
                       sym_type symbol \<noteq> External then [symbol] else []))"
  by (simp add: suggestValue_row_def add_def Let_def)

lemma suggestValue_row_fold:
  "fold (suggestValue_row mk delta) xs (rows, infeasible) =
     (rows @ map (\<lambda>(symbol, row).
                    (symbol,
                     if coefficientFor row mk \<noteq> 0
                     then row\<lparr>row_constant := row_constant row + delta * coefficientFor row mk\<rparr>
                     else row)) xs,
      infeasible @ map fst (filter (\<lambda>(symbol, row).
                                coefficientFor row mk \<noteq> 0 \<and>
                                row_constant row + delta * coefficientFor row mk < 0 \<and>
                                sym_type symbol \<noteq> External) xs))"
proof (induction xs arbitrary: rows infeasible)
  case Nil
  show ?case by simp
next
  case (Cons x xs)
  obtain symbol row where x: "x = (symbol, row)" by (cases x)
  show ?case
    by (simp add: x suggestValue_row_step Cons.IH)
qed

lemma basic_iff: "symbol \<in> fst ` set rows \<longleftrightarrow> map_of rows symbol \<noteq> None"
  by (simp add: map_of_eq_None_iff)

text \<open>
  C5. For a registered edit variable, \<^verbatim>\<open>suggestValue\<close> sets \<open>delta\<close> to the value minus the
  stored constant and stores the value; if the marker keys a basis row it adds \<open>- delta\<close> to
  that row's constant, enqueues the marker exactly when the new constant is negative, and
  dual-optimises; else if the other tag symbol keys a basis row it does the same with
  \<open>+ delta\<close>; else it visits every basis row, adds \<open>delta\<close> times the coefficient on the marker
  to the constant of each row whose coefficient is non-zero, enqueues the row's key exactly
  when the new constant is negative and the key is not External, and dual-optimises. For a
  variable that is not registered it fails with the unknown-edit-variable error.
\<close>

theorem suggestValue_refines_spec:
  "suggestValue fuel variable v s = suggestValue_spec fuel variable v s"
proof (cases "map_of (editMap s) variable")
  case None
  then show ?thesis by (simp add: suggestValue_def suggestValue_spec_def)
next
  case (Some info)
  show ?thesis
  proof (cases "map_of (rowMap s) (marker (info_tag info))")
    case mk: (Some row)
    with Some show ?thesis
      by (simp add: suggestValue_def suggestValue_spec_def basic_iff bumpRow_def add_def Let_def)
  next
    case mk: None
    show ?thesis
    proof (cases "map_of (rowMap s) (other (info_tag info))")
      case (Some row)
      with \<open>map_of (editMap s) variable = Some info\<close> mk show ?thesis
        by (simp add: suggestValue_def suggestValue_spec_def basic_iff bumpRow_def add_def Let_def)
    next
      case None
      with \<open>map_of (editMap s) variable = Some info\<close> mk show ?thesis
        by (simp add: suggestValue_def suggestValue_spec_def basic_iff suggestValue_row_fold
                 Let_def)
    qed
  qed
qed

section \<open>Marker leaving-row selection\<close>




















section \<open>Feasibility of the basis\<close>





lemma row_constant_insertSymbol [simp]:
  "row_constant (insertSymbol row symbol c) = row_constant row"
  by (simp add: insertSymbol_def Let_def)















































section \<open>Adding and then removing a constraint\<close>









lemma row_symbols_reverseSign: "row_symbols (reverseSign row) = row_symbols row"
  by (force simp add: row_symbols_def reverseSign_def)
















end
